theory Spec2Isabelle
  imports Main
begin

section \<open>The process environment\<close>

text \<open>
  Both scripts are run by an interpreter inside a process. What they and the libraries
  they call can observe of that process is its current working directory, the regular
  files of the file system (the bytes of each, by absolute path; permissions are not
  modelled), its command line, its environment variables, the file each loaded module
  came from (\<^verbatim>\<open>sys.modules[name].__file__\<close>, an absolute path) and the system's table
  of MIME types by file name (\<^verbatim>\<open>mimetypes.guess_type\<close>).
\<close>

type_synonym pathname = string
type_synonym bytes = string

record world =
  cwd :: pathname
  files :: "pathname \<rightharpoonup> bytes"
  argv :: "string list"
  environ :: "(string \<times> string) list"
  modules :: "(string \<times> pathname) list"
  guess_type :: "string \<rightharpoonup> string"

text \<open>\<^verbatim>\<open>os.environ.get(key)\<close>.\<close>

definition getenv :: "world \<Rightarrow> string \<Rightarrow> string option" where
  "getenv w key = map_of (environ w) key"

text \<open>
  The HTTP errors the framework raises: no rule for the path, rules for the path but
  none for the method (with the methods there are rules for), and the redirect to the
  path with its slashes merged.
\<close>

datatype http_exception =
    NotFound
  | MethodNotAllowed "string list"
  | RequestRedirect string

text \<open>Python exceptions the scripts can meet.\<close>

datatype exn =
    FileNotFoundError pathname
  | KeyError string
  | TypeError string
  | HTTPException http_exception

text \<open>
  What a run does to the outside, in order: a line printed, a file looked up or opened,
  a view function entered, a program started, the wait for the started program's exit.
\<close>

datatype event =
    Print string
  | Stat pathname
  | Open pathname
  | ViewCall string
  | Exec "string list"
  | Wait int

fun is_Exec :: "event \<Rightarrow> bool" where
  "is_Exec (Exec _) = True"
| "is_Exec _ = False"

fun is_Print :: "event \<Rightarrow> bool" where
  "is_Print (Print _) = True"
| "is_Print _ = False"

fun exec_args :: "event list \<Rightarrow> string list list" where
  "exec_args [] = []"
| "exec_args (Exec a # es) = a # exec_args es"
| "exec_args (_ # es) = exec_args es"

section \<open>os.path.abspath (posixpath)\<close>

text \<open>
  \<^verbatim>\<open>os.path.abspath(path)\<close> is
  \<^verbatim>\<open>normpath(path if isabs(path) else join(os.getcwd(), path))\<close>. The functions
  follow the standard library's posixpath, \<open>join\<close> for its two-argument use.
\<close>

definition isabs :: "string \<Rightarrow> bool" where
  "isabs s = (case s of [] \<Rightarrow> False | c # _ \<Rightarrow> c = CHR ''/'')"

definition join :: "string \<Rightarrow> string \<Rightarrow> string" where
  "join a b =
     (if isabs b then b
      else if a = [] \<or> last a = CHR ''/'' then a @ b
      else a @ ''/'' @ b)"

text \<open>\<^verbatim>\<open>path.split('/')\<close>: the pieces between the separators, empty ones included.\<close>

fun split_sep :: "string \<Rightarrow> string list" where
  "split_sep [] = [[]]"
| "split_sep (c # cs) =
     (if c = CHR ''/'' then [] # split_sep cs
      else (case split_sep cs of [] \<Rightarrow> [[c]] | x # xs \<Rightarrow> (c # x) # xs))"

text \<open>\<^verbatim>\<open>'/'.join(comps)\<close>.\<close>

fun join_sep :: "string list \<Rightarrow> string" where
  "join_sep [] = []"
| "join_sep [x] = x"
| "join_sep (x # y # ys) = x @ ''/'' @ join_sep (y # ys)"

text \<open>
  One initial slash, or two when the path starts with exactly two (three or more count
  as one), or none.
\<close>

definition initial_slashes :: "string \<Rightarrow> nat" where
  "initial_slashes p =
     (if \<not> isabs p then 0
      else if take 2 p = ''//'' \<and> take 3 p \<noteq> ''///'' then 2
      else 1)"

text \<open>The body of normpath's loop over the components.\<close>

definition norm_step :: "nat \<Rightarrow> string list \<Rightarrow> string \<Rightarrow> string list" where
  "norm_step init new_comps part =
     (if part = [] \<or> part = ''.'' then new_comps
      else if part \<noteq> ''..'' \<or> (init = 0 \<and> new_comps = [])
                \<or> (new_comps \<noteq> [] \<and> last new_comps = ''..'')
        then new_comps @ [part]
      else if new_comps \<noteq> [] then butlast new_comps
      else new_comps)"

definition normpath :: "string \<Rightarrow> string" where
  "normpath p =
     (if p = [] then ''.''
      else
        let init = initial_slashes p;
            comps = foldl (norm_step init) [] (split_sep p);
            q = replicate init CHR ''/'' @ join_sep comps
        in if q = [] then ''.'' else q)"

text \<open>The working directory is read with \<^verbatim>\<open>os.getcwd()\<close>.\<close>

definition getcwd :: "world \<Rightarrow> pathname" where
  "getcwd w = cwd w"

definition abspath :: "world \<Rightarrow> string \<Rightarrow> pathname" where
  "abspath w p = normpath (if isabs p then p else join (getcwd w) p)"

text \<open>
  A path component that normpath keeps as it is: not empty, without separator, and
  neither \<open>.\<close> nor \<open>..\<close>.
\<close>

definition plain_part :: "string \<Rightarrow> bool" where
  "plain_part c = (c \<noteq> [] \<and> CHR ''/'' \<notin> set c \<and> c \<noteq> ''.'' \<and> c \<noteq> ''..'')"

text \<open>
  \<^verbatim>\<open>os.path.dirname\<close>: the path up to its last separator, without trailing
  separators unless it consists of separators only. \<^verbatim>\<open>os.path.basename\<close>: what follows
  the last separator.
\<close>

definition dirname :: "string \<Rightarrow> string" where
  "dirname p =
     (let head = rev (dropWhile (\<lambda>c. c \<noteq> CHR ''/'') (rev p))
      in if head \<noteq> [] \<and> head \<noteq> replicate (length head) CHR ''/''
         then rev (dropWhile (\<lambda>c. c = CHR ''/'') (rev head))
         else head)"

definition basename :: "string \<Rightarrow> string" where
  "basename p = rev (takeWhile (\<lambda>c. c \<noteq> CHR ''/'') (rev p))"

section \<open>subprocess.run\<close>

text \<open>
  \<^verbatim>\<open>subprocess.run(args)\<close> starts the program \<open>args[0]\<close> and blocks until it has
  exited; with the default \<open>check=False\<close> any exit code is returned, not raised. When
  the program cannot be started the exception of the failed start is raised. What the
  child does is an input of the model.
\<close>

datatype child = LaunchFailed exn | Exited int

definition subprocess_run :: "string list \<Rightarrow> child \<Rightarrow> event list \<times> (exn + int)" where
  "subprocess_run args c =
     (case c of
        LaunchFailed e \<Rightarrow> ([Exec args], Inl e)
      | Exited rc \<Rightarrow> ([Exec args, Wait rc], Inr rc))"

section \<open>scripts/sqlite\_server.py\<close>

text \<open>
  The module body. \<open>name\<close> is the module's \<^verbatim>\<open>__name__\<close>: \<open>''__main__''\<close> when
  the file is executed as a script.
\<close>

definition sqlite_server_db_path :: "world \<Rightarrow> pathname" where
  "sqlite_server_db_path w = abspath w ''sqlite.db''"

definition sqlite_server :: "string \<Rightarrow> world \<Rightarrow> child \<Rightarrow> event list \<times> (exn + unit)" where
  "sqlite_server name w c =
     (if name = ''__main__'' then
        let db_path = sqlite_server_db_path w;
            out = [Print (''Starting SQLite Web server for database: '' @ db_path),
                   Print ''Access the database at http://0.0.0.0:8080''];
            (evs, r) = subprocess_run
                         [''sqlite_web'',
                          ''--host'', ''0.0.0.0'',
                          ''--port'', ''8080'',
                          ''--no-browser'',
                          ''--read-only'',
                          db_path] c
        in (out @ evs, case r of Inl e \<Rightarrow> Inl e | Inr _ \<Rightarrow> Inr ())
      else ([], Inr ()))"

section \<open>HTTP messages\<close>

text \<open>
  A request: its method and the path of its URL, without the query string, both as
  they stand in the request line. Request headers are not modelled, so answers that
  depend on them (conditional and range requests) are outside this model.
\<close>

record request =
  req_method :: string
  req_path :: string

datatype disposition = Inline string | Attachment string

text \<open>
  Of a response's headers the model records those that routing and CORS set
  (\<open>Allow\<close>, \<open>Location\<close>, \<open>Access-Control-Allow-Origin\<close>); type and disposition of
  the content have fields of their own.
\<close>

record response =
  status :: nat
  mimetype :: string
  content_disposition :: "disposition option"
  headers :: "(string \<times> string) list"
  body :: bytes

section \<open>The library calls of db\_server.py\<close>

text \<open>
  The code of Flask, Werkzeug and Flask-CORS is not part of the repository. Their calls
  are modelled here as far as the scripts use them, after the behaviour of Flask 2.3
  and Werkzeug 2.3 and later.
\<close>

subsection \<open>send\_file\<close>

text \<open>
  Modelled from the spec: \<^verbatim>\<open>flask.send_file\<close>, whose code is not part of the repository.
  For a path that names a file it answers 200 with the file's bytes, the given MIME
  type and a Content-Disposition of the given kind and download name; for a path that
  names no file the look-up raises \<^verbatim>\<open>FileNotFoundError\<close>.
\<close>

definition send_file ::
  "world \<Rightarrow> pathname \<Rightarrow> string \<Rightarrow> bool \<Rightarrow> string \<Rightarrow> event list \<times> (exn + response)" where
  "send_file w p mt as_attachment download_name =
     (case files w p of
        None \<Rightarrow> ([Stat p], Inl (FileNotFoundError p))
      | Some content \<Rightarrow>
          ([Stat p, Open p],
           Inr \<lparr>status = 200,
                mimetype = mt,
                content_disposition =
                  Some (if as_attachment then Attachment download_name
                        else Inline download_name),
                headers = [],
                body = content\<rparr>))"

subsection \<open>Letter case\<close>

text \<open>\<^verbatim>\<open>str.upper\<close> and \<^verbatim>\<open>str.lower\<close> on the letters of ASCII.\<close>

definition upper_char :: "char \<Rightarrow> char" where
  "upper_char c =
     (case map_of (zip ''abcdefghijklmnopqrstuvwxyz'' ''ABCDEFGHIJKLMNOPQRSTUVWXYZ'') c of
        None \<Rightarrow> c
      | Some u \<Rightarrow> u)"

definition lower_char :: "char \<Rightarrow> char" where
  "lower_char c =
     (case map_of (zip ''ABCDEFGHIJKLMNOPQRSTUVWXYZ'' ''abcdefghijklmnopqrstuvwxyz'') c of
        None \<Rightarrow> c
      | Some l \<Rightarrow> l)"

definition upper :: "string \<Rightarrow> string" where
  "upper s = map upper_char s"

definition lower :: "string \<Rightarrow> string" where
  "lower s = map lower_char s"

subsection \<open>The application object\<close>

text \<open>
  A URL rule is a literal path, optionally followed by one variable of the converter
  \<open>path\<close>: \<^verbatim>\<open>/static/<path:filename>\<close> is the literal \<open>/static/\<close> with the variable
  \<open>filename\<close>. A view function is called with the values of the rule's variables and
  reads the process state.
\<close>

record rule =
  rule_path :: string
  rule_var :: "string option"
  rule_methods :: "string list"
  endpoint :: string

type_synonym view = "world \<Rightarrow> event list \<times> (exn + response)"

record flask =
  import_name :: string
  url_map :: "rule list"
  view_functions :: "(string \<times> (string list \<Rightarrow> view)) list"
  error_handler_spec :: "(nat \<times> (world \<Rightarrow> response)) list"
  after_request_funcs :: "(response \<Rightarrow> response) list"
  debug :: bool

text \<open>
  The static files of an application are those of the folder \<open>static\<close> beside the file
  of the module that created it (\<^verbatim>\<open>get_root_path\<close>, \<^verbatim>\<open>static_folder\<close>).
\<close>

definition get_root_path :: "string \<Rightarrow> world \<Rightarrow> pathname" where
  "get_root_path name w =
     (case map_of (modules w) name of
        Some f \<Rightarrow> dirname (abspath w f)
      | None \<Rightarrow> getcwd w)"

definition static_folder :: "string \<Rightarrow> world \<Rightarrow> pathname" where
  "static_folder name w = join (get_root_path name w) ''static''"

text \<open>
  \<^verbatim>\<open>werkzeug.security.safe_join\<close>: the file name is normalised and refused when it
  is absolute or leaves the directory.
\<close>

definition safe_join :: "string \<Rightarrow> string \<Rightarrow> pathname option" where
  "safe_join directory filename =
     (let d = (if directory = [] then ''.'' else directory);
          f = (if filename = [] then [] else normpath filename)
      in if isabs f \<or> f = ''..'' \<or> take 3 f = ''../'' then None else Some (join d f))"

text \<open>
  \<^verbatim>\<open>send_from_directory\<close>: not found unless the joined path names a file; the file is
  sent inline under its own name, with the MIME type guessed from that name.
\<close>

definition send_from_directory ::
  "world \<Rightarrow> pathname \<Rightarrow> string \<Rightarrow> event list \<times> (exn + response)" where
  "send_from_directory w directory filename =
     (case safe_join directory filename of
        None \<Rightarrow> ([], Inl (HTTPException NotFound))
      | Some p \<Rightarrow>
          (case files w p of
             None \<Rightarrow> ([Stat p], Inl (HTTPException NotFound))
           | Some _ \<Rightarrow>
               (case send_file w p
                       (case guess_type w (basename p) of
                          None \<Rightarrow> ''application/octet-stream''
                        | Some t \<Rightarrow> t)
                       False (basename p) of
                  (evs, r) \<Rightarrow> (Stat p # evs, r))))"

definition send_static_file :: "string \<Rightarrow> string list \<Rightarrow> view" where
  "send_static_file name args w =
     (case args of
        [filename] \<Rightarrow> send_from_directory w (static_folder name w) filename
      | _ \<Rightarrow> ([], Inl (TypeError ''static'')))"

text \<open>
  \<^verbatim>\<open>Flask(import_name)\<close>: the default configuration, debug mode off, and the rule
  and view for static files that the constructor installs by itself.
\<close>

definition static_rule :: rule where
  "static_rule =
     \<lparr>rule_path = ''/static/'', rule_var = Some ''filename'',
      rule_methods = [''GET'', ''HEAD'', ''OPTIONS''], endpoint = ''static''\<rparr>"

definition Flask :: "string \<Rightarrow> flask" where
  "Flask name =
     \<lparr>import_name = name, url_map = [static_rule],
      view_functions = [(''static'', send_static_file name)],
      error_handler_spec = [], after_request_funcs = [], debug = False\<rparr>"

text \<open>
  \<^verbatim>\<open>@app.route(path)\<close> on a function \<open>f\<close> without parameters named \<open>name\<close>: the
  endpoint is the function's name and, no methods being given, the rule answers GET,
  HEAD and OPTIONS. Calling \<open>f\<close> with arguments is a \<^verbatim>\<open>TypeError\<close>.
\<close>

definition route :: "string \<Rightarrow> string \<Rightarrow> view \<Rightarrow> flask \<Rightarrow> flask" where
  "route p name f app =
     app\<lparr>url_map := url_map app @
            [\<lparr>rule_path = p, rule_var = None,
              rule_methods = [''GET'', ''HEAD'', ''OPTIONS''], endpoint = name\<rparr>],
         view_functions := view_functions app @
            [(name, \<lambda>args w. if args = [] then f w else ([], Inl (TypeError name)))]\<rparr>"

subsection \<open>Routing\<close>

text \<open>
  The path reaches the router percent-decoded (\<^verbatim>\<open>urllib.parse.unquote\<close>, here on
  bytes): \<open>%\<close> and two hexadecimal digits stand for the byte of that value.
\<close>

definition hex_digit :: "char \<Rightarrow> nat option" where
  "hex_digit c =
     map_of (zip ''0123456789abcdefABCDEF''
               [0, 1, 2, 3, 4, 5, 6, 7, 8, 9, 10, 11, 12, 13, 14, 15, 10, 11, 12, 13, 14, 15]) c"

fun unquote :: "string \<Rightarrow> string" where
  "unquote (c # h # l # cs) =
     (if c = CHR ''%'' then
        (case (hex_digit h, hex_digit l) of
           (Some a, Some b) \<Rightarrow> char_of (16 * a + b) # unquote cs
         | _ \<Rightarrow> c # unquote (h # l # cs))
      else c # unquote (h # l # cs))"
| "unquote cs = cs"

text \<open>
  The router works on the method in upper case and on the decoded path with its leading
  slashes replaced by one.
\<close>

definition path_part :: "string \<Rightarrow> string" where
  "path_part p = (if p = [] then [] else CHR ''/'' # dropWhile (\<lambda>c. c = CHR ''/'') p)"

definition routed_path :: "request \<Rightarrow> string" where
  "routed_path req = path_part (unquote (req_path req))"

text \<open>
  A rule without variable matches the path equal to it. A rule with a variable matches
  a path that continues the rule's literal part by a text that is not empty and does
  not begin with a slash, which is the variable's value.
\<close>

definition match_rule :: "rule \<Rightarrow> string \<Rightarrow> string list option" where
  "match_rule r p =
     (case rule_var r of
        None \<Rightarrow> if p = rule_path r then Some [] else None
      | Some _ \<Rightarrow>
          let n = length (rule_path r); v = drop n p
          in if take n p = rule_path r \<and> v \<noteq> [] \<and> hd v \<noteq> CHR ''/'' then Some [v]
             else None)"

text \<open>
  The first rule that matches path and method, with the values of its variables; or,
  when there is none, the methods of the rules that match the path.
\<close>

definition find_rule ::
  "rule list \<Rightarrow> string \<Rightarrow> string \<Rightarrow> string list + (rule \<times> string list)" where
  "find_rule rules m p =
     (case List.map_filter (\<lambda>r. map_option (Pair r) (match_rule r p)) rules of
        [] \<Rightarrow> Inl []
      | cands \<Rightarrow>
          (case filter (\<lambda>c. m \<in> set (rule_methods (fst c))) cands of
             [] \<Rightarrow> Inl (concat (map (\<lambda>c. rule_methods (fst c)) cands))
           | found # _ \<Rightarrow> Inr found))"

text \<open>
  \<^verbatim>\<open>re.sub("/{2,}?", "/", path)\<close>: from the left, every two slashes in a row become
  one.
\<close>

fun merge_slashes :: "string \<Rightarrow> string" where
  "merge_slashes (a # b # cs) =
     (if a = CHR ''/'' \<and> b = CHR ''/'' then CHR ''/'' # merge_slashes cs
      else a # merge_slashes (b # cs))"
| "merge_slashes cs = cs"

text \<open>
  Matching a request. When no rule matches path and method, the path is tried again
  with its slashes merged: a match then is a redirect to the merged path; otherwise
  the request is not found, or its method not allowed when some rule matched the path.
\<close>

definition match_request ::
  "rule list \<Rightarrow> request \<Rightarrow> http_exception + (rule \<times> string list)" where
  "match_request rules req =
     (let m = upper (req_method req); p = routed_path req
      in case find_rule rules m p of
           Inr found \<Rightarrow> Inr found
         | Inl ms \<Rightarrow>
             (case find_rule rules m (merge_slashes p) of
                Inr _ \<Rightarrow> Inl (RequestRedirect (merge_slashes p))
              | Inl ms' \<Rightarrow>
                  if ms @ ms' = [] then Inl NotFound
                  else Inl (MethodNotAllowed (remdups (ms @ ms')))))"

subsection \<open>Responses of the framework\<close>

text \<open>
  The framework's own responses. The body of an error page is represented by the
  error's name; of a redirect's target the path is recorded.
\<close>

definition error_page :: "nat \<Rightarrow> string \<Rightarrow> (string \<times> string) list \<Rightarrow> response" where
  "error_page code name hs =
     \<lparr>status = code, mimetype = ''text/html'', content_disposition = None,
      headers = hs, body = name\<rparr>"

fun comma_join :: "string list \<Rightarrow> string" where
  "comma_join [] = []"
| "comma_join [x] = x"
| "comma_join (x # y # ys) = x @ '', '' @ comma_join (y # ys)"

definition allow_header :: "string list \<Rightarrow> (string \<times> string) list" where
  "allow_header ms = [(''Allow'', comma_join ms)]"

definition not_found_response :: response where
  "not_found_response = error_page 404 ''Not Found'' []"

definition internal_server_error_response :: response where
  "internal_server_error_response = error_page 500 ''Internal Server Error'' []"

fun default_response :: "http_exception \<Rightarrow> response" where
  "default_response NotFound = not_found_response"
| "default_response (MethodNotAllowed ms) =
     error_page 405 ''Method Not Allowed'' (allow_header ms)"
| "default_response (RequestRedirect p) =
     error_page 308 ''Permanent Redirect'' [(''Location'', p)]"

fun code_of :: "http_exception \<Rightarrow> nat" where
  "code_of NotFound = 404"
| "code_of (MethodNotAllowed _) = 405"
| "code_of (RequestRedirect _) = 308"

definition options_response :: "rule \<Rightarrow> response" where
  "options_response r =
     \<lparr>status = 200, mimetype = ''text/html'', content_disposition = None,
      headers = allow_header (rule_methods r), body = []\<rparr>"

subsection \<open>Handling a request\<close>

text \<open>
  Every response the application makes passes through the after-request functions,
  last registered first; the answer to a HEAD request is sent without body.
\<close>

definition process_response :: "flask \<Rightarrow> response \<Rightarrow> response" where
  "process_response app resp = fold (\<lambda>f r. f r) (rev (after_request_funcs app)) resp"

definition finalize_request :: "flask \<Rightarrow> request \<Rightarrow> response \<Rightarrow> response" where
  "finalize_request app req resp =
     (let r = process_response app resp
      in if req_method req = ''HEAD'' then r\<lparr>body := []\<rparr> else r)"

text \<open>
  \<^verbatim>\<open>dispatch_request\<close>: the routing error is raised; OPTIONS is answered by the
  framework; otherwise the view function of the matched rule is called.
\<close>

definition dispatch_request :: "flask \<Rightarrow> world \<Rightarrow> request \<Rightarrow> event list \<times> (exn + response)" where
  "dispatch_request app w req =
     (case match_request (url_map app) req of
        Inl e \<Rightarrow> ([], Inl (HTTPException e))
      | Inr (r, args) \<Rightarrow>
          if upper (req_method req) = ''OPTIONS'' then ([], Inr (options_response r))
          else
            (case map_of (view_functions app) (endpoint r) of
               None \<Rightarrow> ([], Inl (KeyError (endpoint r)))
             | Some f \<Rightarrow>
                 (case f args w of (evs, res) \<Rightarrow> (ViewCall (endpoint r) # evs, res))))"

text \<open>
  An HTTP error goes to the handler the application registered for its status code, and
  is its own default response when there is none; a redirect of the router is never
  handed to a handler. Any other exception is raised again.
\<close>

definition handle_http_exception :: "flask \<Rightarrow> world \<Rightarrow> http_exception \<Rightarrow> response" where
  "handle_http_exception app w e =
     (case e of
        RequestRedirect _ \<Rightarrow> default_response e
      | _ \<Rightarrow>
          (case map_of (error_handler_spec app) (code_of e) of
             None \<Rightarrow> default_response e
           | Some h \<Rightarrow> h w))"

definition handle_user_exception :: "flask \<Rightarrow> world \<Rightarrow> exn \<Rightarrow> exn + response" where
  "handle_user_exception app w e =
     (case e of
        HTTPException h \<Rightarrow> Inr (handle_http_exception app w h)
      | _ \<Rightarrow> Inl e)"

definition full_dispatch_request ::
  "flask \<Rightarrow> world \<Rightarrow> request \<Rightarrow> event list \<times> (exn + response)" where
  "full_dispatch_request app w req =
     (case dispatch_request app w req of
        (evs, Inr resp) \<Rightarrow> (evs, Inr (finalize_request app req resp))
      | (evs, Inl e) \<Rightarrow>
          (case handle_user_exception app w e of
             Inl e' \<Rightarrow> (evs, Inl e')
           | Inr resp \<Rightarrow> (evs, Inr (finalize_request app req resp))))"

text \<open>
  \<^verbatim>\<open>handle_exception\<close>, for an exception that nothing handled: in debug mode it is
  raised again, out of the application; otherwise the answer is the handler's for
  status 500, or the framework's default 500 response when there is none.
\<close>

definition handle_exception :: "flask \<Rightarrow> world \<Rightarrow> request \<Rightarrow> exn \<Rightarrow> exn + response" where
  "handle_exception app w req e =
     (if debug app then Inl e
      else Inr (finalize_request app req
                  (case map_of (error_handler_spec app) 500 of
                     None \<Rightarrow> internal_server_error_response
                   | Some h \<Rightarrow> h w)))"

definition wsgi_app :: "flask \<Rightarrow> world \<Rightarrow> request \<Rightarrow> event list \<times> (exn + response)" where
  "wsgi_app app w req =
     (case full_dispatch_request app w req of
        (evs, Inl e) \<Rightarrow> (evs, handle_exception app w req e)
      | (evs, Inr resp) \<Rightarrow> (evs, Inr resp))"

subsection \<open>CORS\<close>

text \<open>
  Modelled from the spec: \<^verbatim>\<open>flask_cors.CORS(app)\<close> with no options, whose code is not
  part of the repository. It registers an after-request function for every path of the
  application that allows any origin, unless the response already names one.
\<close>

definition cors_after_request :: "response \<Rightarrow> response" where
  "cors_after_request resp =
     (if ''Access-Control-Allow-Origin'' \<in> set (map fst (headers resp)) then resp
      else resp\<lparr>headers := headers resp @ [(''Access-Control-Allow-Origin'', ''*'')]\<rparr>)"

definition CORS :: "flask \<Rightarrow> flask" where
  "CORS app = app\<lparr>after_request_funcs := after_request_funcs app @ [cors_after_request]\<rparr>"

subsection \<open>The development server\<close>

text \<open>
  \<^verbatim>\<open>get_debug_flag\<close>: the variable \<open>FLASK_DEBUG\<close> is set to something other than
  \<open>0\<close>, \<open>false\<close> or \<open>no\<close>.
\<close>

definition get_debug_flag :: "world \<Rightarrow> bool" where
  "get_debug_flag w =
     (case getenv w ''FLASK_DEBUG'' of
        None \<Rightarrow> False
      | Some v \<Rightarrow> v \<noteq> [] \<and> lower v \<notin> {''0'', ''false'', ''no''})"

text \<open>
  \<^verbatim>\<open>app.run(host, port)\<close>. The call is ignored when \<open>FLASK_RUN_FROM_CLI\<close> is
  \<open>true\<close>. Otherwise \<open>FLASK_DEBUG\<close>, when set, decides the application's debug flag,
  and the application is served on the given address, with debugger and reloader in
  debug mode. The constructor's own look at \<open>FLASK_DEBUG\<close> gives the same flag and is
  not modelled apart; nor are the restart of the script by the reloader and the lines
  the framework prints.
\<close>

record server =
  served :: flask
  host :: string
  port :: nat
  use_debugger :: bool
  use_reloader :: bool

definition app_run :: "flask \<Rightarrow> world \<Rightarrow> string \<Rightarrow> nat \<Rightarrow> server option" where
  "app_run app w h p =
     (if getenv w ''FLASK_RUN_FROM_CLI'' = Some ''true'' then None
      else
        let d = (if getenv w ''FLASK_DEBUG'' \<noteq> None then get_debug_flag w else debug app)
        in Some \<lparr>served = app\<lparr>debug := d\<rparr>, host = h, port = p,
                  use_debugger = d, use_reloader = d\<rparr>)"

text \<open>
  What the server sends for a request: the application's response, or, for an
  exception that left the application, the debugger's page when the debugger is on and
  the default 500 response otherwise. The page is represented by the exception's name.
\<close>

fun exn_name :: "exn \<Rightarrow> string" where
  "exn_name (FileNotFoundError _) = ''FileNotFoundError''"
| "exn_name (KeyError _) = ''KeyError''"
| "exn_name (TypeError _) = ''TypeError''"
| "exn_name (HTTPException _) = ''HTTPException''"

definition debugger_response :: "exn \<Rightarrow> response" where
  "debugger_response e = error_page 500 (exn_name e) []"

definition run_wsgi :: "server \<Rightarrow> world \<Rightarrow> request \<Rightarrow> event list \<times> response" where
  "run_wsgi srv w req =
     (case wsgi_app (served srv) w req of
        (evs, Inr resp) \<Rightarrow> (evs, resp)
      | (evs, Inl e) \<Rightarrow>
          (evs, if use_debugger srv then debugger_response e
                else internal_server_error_response))"

section \<open>scripts/db\_server.py\<close>

definition serve_db_db_path :: "world \<Rightarrow> pathname" where
  "serve_db_db_path w = abspath w ''sqlite.db''"

definition serve_db :: view where
  "serve_db w =
     (let db_path = serve_db_db_path w
      in send_file w db_path ''application/x-sqlite3'' True ''sqlite.db'')"

text \<open>The module level: the application, CORS applied to it, the one route.\<close>

definition db_server_app :: "string \<Rightarrow> flask" where
  "db_server_app name = route ''/sqlite.db'' ''serve_db'' serve_db (CORS (Flask name))"

definition db_server :: "string \<Rightarrow> world \<Rightarrow> event list \<times> server option" where
  "db_server name w =
     (let app = db_server_app name
      in if name = ''__main__'' then
           ([Print ''Starting DB server on http://0.0.0.0:5000/sqlite.db''],
            app_run app w ''0.0.0.0'' 5000)
         else ([], None))"

text \<open>
  The answer of a run of the script to a request: that of the server it started, and
  none when it started no server.
\<close>

definition db_server_answer :: "string \<Rightarrow> world \<Rightarrow> request \<Rightarrow> (event list \<times> response) option" where
  "db_server_answer name w req =
     map_option (\<lambda>srv. run_wsgi srv w req) (snd (db_server name w))"

section \<open>Example inputs\<close>

text \<open>A working directory that holds the database, and one that does not.\<close>

definition world1 :: world where
  "world1 =
     \<lparr>cwd = ''/srv/app'',
      files = [''/srv/app/sqlite.db'' \<mapsto> ''SQLite format 3''],
      argv = [''sqlite_server.py''],
      environ = [],
      modules = [(''__main__'', ''/srv/app/scripts/db_server.py'')],
      guess_type = Map.empty\<rparr>"

definition world2 :: world where
  "world2 =
     \<lparr>cwd = ''/srv/app'',
      files = Map.empty,
      argv = [''sqlite_server.py'', ''--port'', ''9''],
      environ = [(''PORT'', ''9'')],
      modules = [(''__main__'', ''/srv/app/scripts/db_server.py'')],
      guess_type = Map.empty\<rparr>"


text \<open>The first with a file in the folder \<open>static\<close> beside the script.\<close>

definition world4 :: world where
  "world4 =
     world1\<lparr>files := [''/srv/app/sqlite.db'' \<mapsto> ''SQLite format 3'',
                       ''/srv/app/scripts/static/app.js'' \<mapsto> ''alert(1)''],
            guess_type := [''app.js'' \<mapsto> ''text/javascript'']\<rparr>"

text \<open>
  The first with \<open>FLASK_RUN_FROM_CLI\<close> set, and the second, which lacks the database,
  with \<open>FLASK_DEBUG\<close> set.
\<close>

definition world5 :: world where
  "world5 = world1\<lparr>environ := [(''FLASK_RUN_FROM_CLI'', ''true'')]\<rparr>"


definition get_db :: request where
  "get_db = \<lparr>req_method = ''GET'', req_path = ''/sqlite.db''\<rparr>"

definition get_other :: request where
  "get_other = \<lparr>req_method = ''GET'', req_path = ''/other''\<rparr>"


definition get_slash_db :: request where
  "get_slash_db = \<lparr>req_method = ''GET'', req_path = ''//sqlite.db''\<rparr>"

definition get_static :: request where
  "get_static = \<lparr>req_method = ''GET'', req_path = ''/static/app.js''\<rparr>"

section \<open>The resolved path\<close>

lemma abspath_cwd: "cwd w = cwd w' \<Longrightarrow> abspath w p = abspath w' p"
  by (simp add: abspath_def getcwd_def)

lemma abspath_world1: "abspath world1 ''sqlite.db'' = ''/srv/app/sqlite.db''"
  by (simp add: abspath_def getcwd_def world1_def isabs_def join_def normpath_def
      initial_slashes_def norm_step_def)

lemma abspath_world2: "abspath world2 ''sqlite.db'' = ''/srv/app/sqlite.db''"
  by (simp add: abspath_def getcwd_def world2_def isabs_def join_def normpath_def
      initial_slashes_def norm_step_def)

text \<open>
  In a working directory of normal form, \<open>/c\<^sub>1/.../c\<^sub>n\<close> with plain components,
  the name resolves to \<open>/c\<^sub>1/.../c\<^sub>n/sqlite.db\<close>; in the root directory, to
  \<open>/sqlite.db\<close>.
\<close>

lemma split_sep_no_sep: "CHR ''/'' \<notin> set x \<Longrightarrow> split_sep x = [x]"
  by (induction x) auto

lemma split_sep_append:
  "CHR ''/'' \<notin> set x \<Longrightarrow> split_sep (x @ CHR ''/'' # rest) = x # split_sep rest"
  by (induction x) auto

lemma split_sep_join_sep:
  "cs \<noteq> [] \<Longrightarrow> list_all plain_part cs \<Longrightarrow> split_sep (join_sep cs) = cs"
proof (induction cs rule: join_sep.induct)
  case 1
  then show ?case by simp
next
  case (2 x)
  then show ?case by (simp add: plain_part_def split_sep_no_sep)
next
  case (3 x y ys)
  then show ?case by (simp add: plain_part_def split_sep_append)
qed

lemma foldl_norm_step_plain:
  "list_all plain_part cs \<Longrightarrow> foldl (norm_step i) acc cs = acc @ cs"
  by (induction cs arbitrary: acc) (auto simp add: norm_step_def plain_part_def)

lemma join_sep_snoc:
  "cs \<noteq> [] \<Longrightarrow> join_sep (cs @ [x]) = join_sep cs @ CHR ''/'' # x"
  by (induction cs rule: join_sep.induct) auto

lemma plain_part_ends:
  "plain_part x \<Longrightarrow> x \<noteq> [] \<and> last x \<noteq> CHR ''/'' \<and> hd x \<noteq> CHR ''/''"
  unfolding plain_part_def using last_in_set [of x] hd_in_set [of x] by metis

lemma join_sep_ends:
  "cs \<noteq> [] \<Longrightarrow> list_all plain_part cs \<Longrightarrow>
   join_sep cs \<noteq> [] \<and> last (join_sep cs) \<noteq> CHR ''/'' \<and> hd (join_sep cs) \<noteq> CHR ''/''"
proof (induction cs rule: join_sep.induct)
  case 1
  then show ?case by simp
next
  case (2 x)
  then show ?case
    using plain_part_ends [of x] by simp
next
  case (3 x y ys)
  then show ?case
    using plain_part_ends [of x] by simp
qed

lemma normpath_plain:
  assumes "cs \<noteq> []" and "list_all plain_part cs"
  shows "normpath (CHR ''/'' # join_sep cs) = CHR ''/'' # join_sep cs"
proof -
  from join_sep_ends [OF assms] obtain c s where j: "join_sep cs = c # s" and c: "c \<noteq> CHR ''/''"
    by (cases "join_sep cs") auto
  have i: "initial_slashes (CHR ''/'' # join_sep cs) = 1"
    by (simp add: initial_slashes_def isabs_def j c)
  have "split_sep (CHR ''/'' # join_sep cs) = [] # cs"
    using split_sep_join_sep [OF assms] by simp
  then have "foldl (norm_step 1) [] (split_sep (CHR ''/'' # join_sep cs)) = cs"
    using foldl_norm_step_plain [OF assms(2), of 1 "[]"] by (simp add: norm_step_def)
  then show ?thesis
    by (simp add: normpath_def i Let_def)
qed

lemma abspath_in_normal_cwd:
  assumes "cs \<noteq> []" and "list_all plain_part cs" and "cwd w = CHR ''/'' # join_sep cs"
  shows "abspath w ''sqlite.db'' = cwd w @ ''/sqlite.db''"
proof -
  have l: "join_sep cs \<noteq> [] \<and> last (join_sep cs) \<noteq> CHR ''/''"
    using join_sep_ends [OF assms(1,2)] by simp
  then have "join (cwd w) ''sqlite.db'' = CHR ''/'' # join_sep (cs @ [''sqlite.db''])"
    using assms(1) by (simp add: join_def isabs_def assms(3) join_sep_snoc)
  moreover have "list_all plain_part (cs @ [''sqlite.db''])"
    using assms(2) by (simp add: plain_part_def)
  ultimately have "abspath w ''sqlite.db'' = CHR ''/'' # join_sep (cs @ [''sqlite.db''])"
    using normpath_plain [of "cs @ [''sqlite.db'']"]
    by (simp add: abspath_def getcwd_def isabs_def)
  then show ?thesis
    using assms(1) by (simp add: join_sep_snoc assms(3))
qed

lemma abspath_in_root: "cwd w = ''/'' \<Longrightarrow> abspath w ''sqlite.db'' = ''/sqlite.db''"
  by (simp add: abspath_def getcwd_def isabs_def join_def normpath_def
      initial_slashes_def norm_step_def)


section \<open>The launcher\<close>

text \<open>What a run of the script does, and how it ends, for either fate of the child.\<close>

lemma sqlite_server_events:
  "fst (sqlite_server ''__main__'' w c) =
     [Print (''Starting SQLite Web server for database: '' @ sqlite_server_db_path w),
      Print ''Access the database at http://0.0.0.0:8080'',
      Exec [''sqlite_web'', ''--host'', ''0.0.0.0'', ''--port'', ''8080'',
            ''--no-browser'', ''--read-only'', sqlite_server_db_path w]]
     @ (case c of LaunchFailed e \<Rightarrow> [] | Exited rc \<Rightarrow> [Wait rc])"
  by (cases c) (simp_all add: sqlite_server_def subprocess_run_def Let_def)

lemma sqlite_server_result:
  "snd (sqlite_server ''__main__'' w c) =
     (case c of LaunchFailed e \<Rightarrow> Inl e | Exited rc \<Rightarrow> Inr ())"
  by (cases c) (simp_all add: sqlite_server_def subprocess_run_def Let_def)

text \<open>
  C2. Executed as a script, sqlite\_server.py starts exactly one program, whatever the
  process state and whatever becomes of the child: \<open>sqlite_web\<close>, with host
  \<open>0.0.0.0\<close>, port \<open>8080\<close>, \<open>--no-browser\<close>, \<open>--read-only\<close> and, last, the absolute path
  of \<open>sqlite.db\<close> resolved from the working directory.
\<close>

theorem sqlite_server_invokes_sqlite_web:
  "exec_args (fst (sqlite_server ''__main__'' w c)) =
     [[''sqlite_web'', ''--host'', ''0.0.0.0'', ''--port'', ''8080'',
       ''--no-browser'', ''--read-only'', abspath w ''sqlite.db'']]"
  by (cases c) (simp_all add: sqlite_server_events sqlite_server_db_path_def)

theorem sqlite_server_invokes_sqlite_web_witness:
  "exec_args (fst (sqlite_server ''__main__'' world1 (Exited 0))) =
     [[''sqlite_web'', ''--host'', ''0.0.0.0'', ''--port'', ''8080'',
       ''--no-browser'', ''--read-only'', ''/srv/app/sqlite.db'']]"
  using sqlite_server_invokes_sqlite_web [of world1 "Exited 0"]
  by (simp only: abspath_world1)

text \<open>
  C8. Every run of sqlite\_server.py starts the child once. When the child runs, the
  script's events end with the start of the child followed by the wait for its exit,
  and the script then ends normally whatever the exit code \<open>rc\<close>; when the child
  cannot be started, the events end with the one failed start and its exception \<open>e\<close>
  ends the script. Before the start there is only printing: nothing restarts, retries
  or probes the child.
\<close>

theorem sqlite_server_one_blocking_run:
  "length (filter is_Exec (fst (sqlite_server ''__main__'' w c))) = 1
   \<and> (\<exists>out args.
         list_all is_Print out
         \<and> fst (sqlite_server ''__main__'' w (Exited rc)) = out @ [Exec args, Wait rc]
         \<and> fst (sqlite_server ''__main__'' w (LaunchFailed e)) = out @ [Exec args])
   \<and> snd (sqlite_server ''__main__'' w (Exited rc)) = Inr ()
   \<and> snd (sqlite_server ''__main__'' w (LaunchFailed e)) = Inl e"
proof -
  have one: "length (filter is_Exec (fst (sqlite_server ''__main__'' w c))) = 1"
    by (cases c) (simp_all add: sqlite_server_events)
  let ?out = "[Print (''Starting SQLite Web server for database: '' @ sqlite_server_db_path w),
      Print ''Access the database at http://0.0.0.0:8080'']"
  let ?args = "[''sqlite_web'', ''--host'', ''0.0.0.0'', ''--port'', ''8080'',
            ''--no-browser'', ''--read-only'', sqlite_server_db_path w]"
  have "list_all is_Print ?out
         \<and> fst (sqlite_server ''__main__'' w (Exited rc)) = ?out @ [Exec ?args, Wait rc]
         \<and> fst (sqlite_server ''__main__'' w (LaunchFailed e)) = ?out @ [Exec ?args]"
    by (simp add: sqlite_server_events)
  then have shape: "\<exists>out args.
         list_all is_Print out
         \<and> fst (sqlite_server ''__main__'' w (Exited rc)) = out @ [Exec args, Wait rc]
         \<and> fst (sqlite_server ''__main__'' w (LaunchFailed e)) = out @ [Exec args]"
    by blast
  show ?thesis
    using one shape by (simp add: sqlite_server_result)
qed

theorem sqlite_server_one_blocking_run_witness:
  "length (filter is_Exec (fst (sqlite_server ''__main__'' world1 (Exited 1)))) = 1
   \<and> snd (sqlite_server ''__main__'' world1 (Exited 1)) = Inr ()
   \<and> snd (sqlite_server ''__main__'' world1 (LaunchFailed (FileNotFoundError ''sqlite_web'')))
       = Inl (FileNotFoundError ''sqlite_web'')"
  using sqlite_server_one_blocking_run
    [of world1 "Exited 1" 1 "FileNotFoundError ''sqlite_web''"]
  by simp

text \<open>
  C9. The launcher never looks at the file system: replacing the files by any others
  \<open>fs\<close> changes nothing of the run. In every state, the one without \<open>sqlite.db\<close>
  included, it prints two lines and starts the child with the resolved path as last
  argument, and the only exception it can end with is the child's failed start.
\<close>

theorem sqlite_server_no_file_check:
  "sqlite_server ''__main__'' (w\<lparr>files := fs\<rparr>) c = sqlite_server ''__main__'' w c
   \<and> fst (sqlite_server ''__main__'' w c) =
       [Print (''Starting SQLite Web server for database: '' @ abspath w ''sqlite.db''),
        Print ''Access the database at http://0.0.0.0:8080'',
        Exec [''sqlite_web'', ''--host'', ''0.0.0.0'', ''--port'', ''8080'',
              ''--no-browser'', ''--read-only'', abspath w ''sqlite.db'']]
       @ (case c of LaunchFailed e \<Rightarrow> [] | Exited rc \<Rightarrow> [Wait rc])
   \<and> snd (sqlite_server ''__main__'' w c) =
       (case c of LaunchFailed e \<Rightarrow> Inl e | Exited rc \<Rightarrow> Inr ())"
proof -
  have "abspath (w\<lparr>files := fs\<rparr>) ''sqlite.db'' = abspath w ''sqlite.db''"
    by (rule abspath_cwd) simp
  then have "sqlite_server ''__main__'' (w\<lparr>files := fs\<rparr>) c = sqlite_server ''__main__'' w c"
    by (simp add: sqlite_server_def sqlite_server_db_path_def)
  then show ?thesis
    by (simp add: sqlite_server_events sqlite_server_result sqlite_server_db_path_def)
qed

theorem sqlite_server_no_file_check_witness:
  "files world2 ''/srv/app/sqlite.db'' = None
   \<and> fst (sqlite_server ''__main__'' world2 (Exited 0)) =
       [Print ''Starting SQLite Web server for database: /srv/app/sqlite.db'',
        Print ''Access the database at http://0.0.0.0:8080'',
        Exec [''sqlite_web'', ''--host'', ''0.0.0.0'', ''--port'', ''8080'',
              ''--no-browser'', ''--read-only'', ''/srv/app/sqlite.db''],
        Wait 0]
   \<and> snd (sqlite_server ''__main__'' world2 (Exited 0)) = Inr ()"
  using sqlite_server_no_file_check [where w = world2 and fs = Map.empty and c = "Exited 0"]
  by (simp add: abspath_world2) (simp add: world2_def)

section \<open>The file server\<close>

text \<open>The application as the module level of db\_server.py builds it.\<close>

lemma db_server_app_fields:
  "url_map (db_server_app n) =
     [static_rule,
      \<lparr>rule_path = ''/sqlite.db'', rule_var = None,
       rule_methods = [''GET'', ''HEAD'', ''OPTIONS''], endpoint = ''serve_db''\<rparr>]"
  "view_functions (db_server_app n) =
     [(''static'', send_static_file n),
      (''serve_db'', \<lambda>args w. if args = [] then serve_db w else ([], Inl (TypeError ''serve_db'')))]"
  "error_handler_spec (db_server_app n) = []"
  "after_request_funcs (db_server_app n) = [cors_after_request]"
  "debug (db_server_app n) = False"
  "import_name (db_server_app n) = n"
  by (simp_all add: db_server_app_def route_def CORS_def Flask_def)

lemma finalize_db_server_app:
  "finalize_request (db_server_app n) req resp =
     (if req_method req = ''HEAD'' then (cors_after_request resp)\<lparr>body := []\<rparr>
      else cors_after_request resp)"
  by (simp add: finalize_request_def process_response_def db_server_app_fields)

lemma find_rule_db:
  "find_rule
     [static_rule,
      \<lparr>rule_path = ''/sqlite.db'', rule_var = None,
       rule_methods = [''GET'', ''HEAD'', ''OPTIONS''], endpoint = ''serve_db''\<rparr>] m p =
     (if take 8 p = ''/static/'' \<and> drop 8 p \<noteq> [] \<and> hd (drop 8 p) \<noteq> CHR ''/''
      then (if m \<in> {''GET'', ''HEAD'', ''OPTIONS''} then Inr (static_rule, [drop 8 p])
            else Inl [''GET'', ''HEAD'', ''OPTIONS''])
      else if p = ''/sqlite.db''
      then (if m \<in> {''GET'', ''HEAD'', ''OPTIONS''}
            then Inr (\<lparr>rule_path = ''/sqlite.db'', rule_var = None,
                       rule_methods = [''GET'', ''HEAD'', ''OPTIONS''],
                       endpoint = ''serve_db''\<rparr>, [])
            else Inl [''GET'', ''HEAD'', ''OPTIONS''])
      else Inl [])"
  by (auto simp add: find_rule_def match_rule_def static_rule_def List.map_filter_simps Let_def
      eval_nat_numeral)

lemma upper_GET: "upper ''GET'' = ''GET''"
  by (simp add: upper_def upper_char_def)

lemma match_get_db:
  "req_method req = ''GET'' \<Longrightarrow> req_path req = ''/sqlite.db'' \<Longrightarrow>
   match_request (url_map (db_server_app n)) req =
     Inr (\<lparr>rule_path = ''/sqlite.db'', rule_var = None,
           rule_methods = [''GET'', ''HEAD'', ''OPTIONS''], endpoint = ''serve_db''\<rparr>, [])"
  by (simp add: match_request_def db_server_app_fields find_rule_db upper_GET routed_path_def
      path_part_def)

lemma dispatch_get_db:
  "req_method req = ''GET'' \<Longrightarrow> req_path req = ''/sqlite.db'' \<Longrightarrow>
   dispatch_request (db_server_app n) w req =
     (case serve_db w of (evs, res) \<Rightarrow> (ViewCall ''serve_db'' # evs, res))"
proof -
  assume m: "req_method req = ''GET''" and p: "req_path req = ''/sqlite.db''"
  have "upper (req_method req) \<noteq> ''OPTIONS''"
    by (simp add: m upper_GET)
  then show ?thesis
    by (simp add: dispatch_request_def match_get_db [OF m p] db_server_app_fields(2))
qed

lemma serve_db_present:
  "files w (abspath w ''sqlite.db'') = Some content \<Longrightarrow>
   serve_db w =
     ([Stat (abspath w ''sqlite.db''), Open (abspath w ''sqlite.db'')],
      Inr \<lparr>status = 200, mimetype = ''application/x-sqlite3'',
           content_disposition = Some (Attachment ''sqlite.db''),
           headers = [], body = content\<rparr>)"
  by (simp add: serve_db_def serve_db_db_path_def send_file_def Let_def)

lemma serve_db_absent:
  "files w (abspath w ''sqlite.db'') = None \<Longrightarrow>
   serve_db w =
     ([Stat (abspath w ''sqlite.db'')], Inl (FileNotFoundError (abspath w ''sqlite.db'')))"
  by (simp add: serve_db_def serve_db_db_path_def send_file_def Let_def)










text \<open>
  The events of a request are those of its dispatch; the views of the framework enter
  no view function of their own.
\<close>

lemma wsgi_app_events: "fst (wsgi_app app w req) = fst (dispatch_request app w req)"
  by (simp add: wsgi_app_def full_dispatch_request_def split: prod.splits sum.splits)

lemma match_request_Inr:
  "match_request rules req = Inr found \<Longrightarrow>
   find_rule rules (upper (req_method req)) (routed_path req) = Inr found"
  by (simp add: match_request_def Let_def split: sum.splits if_splits)

lemma send_file_events: "send_file w p mt a d = (evs, r) \<Longrightarrow> ViewCall k \<notin> set evs"
  by (auto simp add: send_file_def split: option.splits)

lemma send_static_file_events: "ViewCall k \<notin> set (fst (send_static_file n args w))"
proof -
  have "ViewCall k \<notin> set (fst (send_from_directory w d f))" for d f
    by (auto simp add: send_from_directory_def dest: send_file_events
        split: option.splits prod.splits)
  then show ?thesis
    by (simp add: send_static_file_def split: list.splits)
qed

lemma serve_db_not_called:
  assumes "routed_path req \<noteq> ''/sqlite.db''"
  shows "ViewCall ''serve_db'' \<notin> set (fst (wsgi_app (db_server_app n) w req))"
proof (cases "match_request (url_map (db_server_app n)) req")
  case (Inl e)
  then show ?thesis
    by (simp add: wsgi_app_events dispatch_request_def)
next
  case (Inr found)
  from match_request_Inr [OF Inr] assms have "\<exists>v. found = (static_rule, v)"
    by (auto simp add: db_server_app_fields(1) find_rule_db split: if_splits)
  then obtain v where f: "found = (static_rule, v)"
    by blast
  have "fst (dispatch_request (db_server_app n) w req) = []
        \<or> fst (dispatch_request (db_server_app n) w req)
            = ViewCall ''static'' # fst (send_static_file n v w)"
    using Inr f
    by (simp add: dispatch_request_def db_server_app_fields(2) static_rule_def
        split: prod.splits)
  with send_static_file_events [of "''serve_db''" n v w] show ?thesis
    by (auto simp add: wsgi_app_events)
qed

text \<open>
  Merging slashes keeps a text without slash as it is, keeps a slash where there is
  one, and keeps what comes before the first slash. So a path that the router has
  given one leading slash, and that is neither \<open>/sqlite.db\<close> nor under \<open>/static/\<close>,
  stays so when its slashes are merged, and no rule of the application matches it.
\<close>

lemma merge_slashes_no_sep: "CHR ''/'' \<notin> set s \<Longrightarrow> merge_slashes s = s"
  by (induction s rule: merge_slashes.induct) auto

lemma merge_slashes_keeps_sep: "CHR ''/'' \<in> set s \<Longrightarrow> CHR ''/'' \<in> set (merge_slashes s)"
  by (induction s rule: merge_slashes.induct) (auto split: if_splits)

lemma merge_slashes_prefix:
  "CHR ''/'' \<notin> set s \<Longrightarrow> merge_slashes q = s @ CHR ''/'' # v \<Longrightarrow> \<exists>q'. q = s @ CHR ''/'' # q'"
proof (induction q arbitrary: s v rule: merge_slashes.induct)
  case (1 a b cs)
  show ?case
  proof (cases "a = CHR ''/'' \<and> b = CHR ''/''")
    case True
    with "1.prems" have "s = []"
      by (cases s) auto
    with True show ?thesis
      by simp
  next
    case False
    with "1.prems" have m: "a # merge_slashes (b # cs) = s @ CHR ''/'' # v"
      by auto
    show ?thesis
    proof (cases s)
      case Nil
      with m show ?thesis by simp
    next
      case (Cons x s')
      with m "1.prems"(1) have "merge_slashes (b # cs) = s' @ CHR ''/'' # v" "CHR ''/'' \<notin> set s'" "x = a"
        by auto
      with "1.IH"(2) [of s' v] False obtain q' where "b # cs = s' @ CHR ''/'' # q'"
        by auto
      with Cons \<open>x = a\<close> show ?thesis
        by simp
    qed
  qed
qed (auto simp add: Cons_eq_append_conv)

lemma path_part_shape:
  "path_part p = [] \<or> (\<exists>q. path_part p = CHR ''/'' # q \<and> (q = [] \<or> hd q \<noteq> CHR ''/''))"
proof (cases "p = []")
  case True
  then show ?thesis by (simp add: path_part_def)
next
  case False
  let ?q = "dropWhile (\<lambda>c. c = CHR ''/'') p"
  have "?q = [] \<or> hd ?q \<noteq> CHR ''/''"
    using hd_dropWhile [of "\<lambda>c. c = CHR ''/''" p] by blast
  with False show ?thesis
    by (simp add: path_part_def)
qed

lemma merge_slashes_head:
  "q = [] \<or> hd q \<noteq> CHR ''/'' \<Longrightarrow> merge_slashes (CHR ''/'' # q) = CHR ''/'' # merge_slashes q"
  by (cases q) auto

lemma merged_not_db:
  assumes "q = [] \<or> hd q \<noteq> CHR ''/''" and "CHR ''/'' # q \<noteq> ''/sqlite.db''"
  shows "merge_slashes (CHR ''/'' # q) \<noteq> ''/sqlite.db''"
proof
  assume "merge_slashes (CHR ''/'' # q) = ''/sqlite.db''"
  with assms(1) have m: "merge_slashes q = ''sqlite.db''"
    by (simp add: merge_slashes_head)
  have "CHR ''/'' \<notin> set q"
  proof
    assume "CHR ''/'' \<in> set q"
    then have "CHR ''/'' \<in> set (merge_slashes q)"
      by (rule merge_slashes_keeps_sep)
    with m show False by simp
  qed
  then have "merge_slashes q = q"
    by (rule merge_slashes_no_sep)
  with m assms(2) show False
    by simp
qed

lemma merged_not_static:
  assumes "q = [] \<or> hd q \<noteq> CHR ''/''" and "take 8 (CHR ''/'' # q) \<noteq> ''/static/''"
  shows "take 8 (merge_slashes (CHR ''/'' # q)) \<noteq> ''/static/''"
proof
  assume t: "take 8 (merge_slashes (CHR ''/'' # q)) = ''/static/''"
  let ?m = "merge_slashes q"
  from t assms(1) have "take 7 ?m = ''static/''"
    by (simp add: merge_slashes_head eval_nat_numeral)
  then have "?m = ''static/'' @ drop 7 ?m"
    by (metis append_take_drop_id)
  then have "?m = ''static'' @ CHR ''/'' # drop 7 ?m"
    by simp
  with merge_slashes_prefix [of "''static''" q "drop 7 ?m"]
  obtain q' where "q = ''static'' @ CHR ''/'' # q'"
    by auto
  with assms(2) show False
    by simp
qed

lemma no_rule_for_other_paths:
  assumes "routed_path req \<noteq> ''/sqlite.db''" and "take 8 (routed_path req) \<noteq> ''/static/''"
  shows "match_request (url_map (db_server_app n)) req = Inl NotFound"
proof -
  from path_part_shape [of "unquote (req_path req)"] show ?thesis
  proof
    assume "path_part (unquote (req_path req)) = []"
    then show ?thesis
      by (simp add: match_request_def db_server_app_fields(1) find_rule_db routed_path_def)
  next
    assume "\<exists>q. path_part (unquote (req_path req)) = CHR ''/'' # q
                \<and> (q = [] \<or> hd q \<noteq> CHR ''/'')"
    then obtain q where q: "routed_path req = CHR ''/'' # q" "q = [] \<or> hd q \<noteq> CHR ''/''"
      by (auto simp add: routed_path_def)
    have a: "merge_slashes (routed_path req) \<noteq> ''/sqlite.db''"
      using merged_not_db [OF q(2)] assms(1) q(1) by simp
    have b: "take 8 (merge_slashes (routed_path req)) \<noteq> ''/static/''"
      using merged_not_static [OF q(2)] assms(2) q(1) by simp
    show ?thesis
      using assms a b
      by (simp add: match_request_def db_server_app_fields(1) find_rule_db Let_def)
  qed
qed

text \<open>
  The server that a run of the script starts, and its answer when the debug flag is
  off.
\<close>

lemma debug_off: "(db_server_app n)\<lparr>debug := False\<rparr> = db_server_app n"
  by (simp add: db_server_app_def route_def CORS_def Flask_def)

lemma db_server_main:
  "getenv w ''FLASK_RUN_FROM_CLI'' \<noteq> Some ''true'' \<Longrightarrow>
   db_server ''__main__'' w =
     ([Print ''Starting DB server on http://0.0.0.0:5000/sqlite.db''],
      Some \<lparr>served = (db_server_app ''__main__'')\<lparr>debug := get_debug_flag w\<rparr>,
            host = ''0.0.0.0'', port = 5000,
            use_debugger = get_debug_flag w, use_reloader = get_debug_flag w\<rparr>)"
  by (simp add: db_server_def app_run_def Let_def get_debug_flag_def db_server_app_fields(5))

lemma db_server_answer_default:
  assumes "getenv w ''FLASK_RUN_FROM_CLI'' \<noteq> Some ''true''" and "\<not> get_debug_flag w"
    and "wsgi_app (db_server_app ''__main__'') w req = (evs, Inr r)"
  shows "db_server_answer ''__main__'' w req = Some (evs, r)"
  using assms(2,3)
  by (simp add: db_server_answer_def db_server_main [OF assms(1)] run_wsgi_def debug_off)

text \<open>
  C1. When \<open>sqlite.db\<close> exists at the path resolved from the working directory, the
  view function \<open>serve_db\<close> returns a 200 response with the file's bytes, the MIME type
  \<open>application/x-sqlite3\<close> and the disposition attachment under the download name
  \<open>sqlite.db\<close>, and that response, with the CORS header added, is the answer to a GET
  of \<open>/sqlite.db\<close>.
\<close>

theorem serve_db_existing_file:
  assumes "files w (abspath w ''sqlite.db'') = Some content"
    and "req_method req = ''GET''" and "req_path req = ''/sqlite.db''"
  shows "snd (serve_db w) =
           Inr \<lparr>status = 200, mimetype = ''application/x-sqlite3'',
                content_disposition = Some (Attachment ''sqlite.db''),
                headers = [], body = content\<rparr>
         \<and> snd (wsgi_app (db_server_app n) w req) =
           Inr \<lparr>status = 200, mimetype = ''application/x-sqlite3'',
                content_disposition = Some (Attachment ''sqlite.db''),
                headers = [(''Access-Control-Allow-Origin'', ''*'')], body = content\<rparr>"
  using assms
  by (simp add: serve_db_present wsgi_app_def full_dispatch_request_def dispatch_get_db
      finalize_db_server_app cors_after_request_def)

theorem serve_db_existing_file_witness:
  "files world1 ''/srv/app/sqlite.db'' = Some ''SQLite format 3''
   \<and> req_method get_db = ''GET'' \<and> req_path get_db = ''/sqlite.db''
   \<and> snd (wsgi_app (db_server_app ''__main__'') world1 get_db) =
       Inr \<lparr>status = 200, mimetype = ''application/x-sqlite3'',
            content_disposition = Some (Attachment ''sqlite.db''),
            headers = [(''Access-Control-Allow-Origin'', ''*'')],
            body = ''SQLite format 3''\<rparr>"
proof -
  have present: "files world1 (abspath world1 ''sqlite.db'') = Some ''SQLite format 3''"
    by (simp add: abspath_world1) (simp add: world1_def)
  have get: "req_method get_db = ''GET''" "req_path get_db = ''/sqlite.db''"
    by (simp_all add: get_db_def)
  show ?thesis
    using serve_db_existing_file [OF present get, of "''__main__''"] present get
    by (simp add: abspath_world1)
qed

text \<open>
  C3. When \<open>sqlite.db\<close> is absent at the resolved path, \<open>serve_db\<close> ends with the
  \<^verbatim>\<open>FileNotFoundError\<close> that \<open>send_file\<close> raised, as it was raised; the application
  has no error handler of its own, and the answer to a GET of \<open>/sqlite.db\<close> is the
  framework's default error response, status 500, with the CORS header added.
\<close>

theorem serve_db_missing_file:
  assumes "files w (abspath w ''sqlite.db'') = None"
    and "req_method req = ''GET''" and "req_path req = ''/sqlite.db''"
  shows "snd (serve_db w) = Inl (FileNotFoundError (abspath w ''sqlite.db''))
         \<and> snd (serve_db w) =
             snd (send_file w (abspath w ''sqlite.db'') ''application/x-sqlite3'' True ''sqlite.db'')
         \<and> error_handler_spec (db_server_app n) = []
         \<and> snd (wsgi_app (db_server_app n) w req) =
             Inr (cors_after_request internal_server_error_response)
         \<and> status (cors_after_request internal_server_error_response) = 500"
  using assms
  by (simp add: serve_db_absent wsgi_app_def full_dispatch_request_def dispatch_get_db
      handle_user_exception_def handle_exception_def
      finalize_db_server_app cors_after_request_def db_server_app_fields send_file_def
      internal_server_error_response_def error_page_def)

theorem serve_db_missing_file_witness:
  "files world2 ''/srv/app/sqlite.db'' = None
   \<and> snd (serve_db world2) = Inl (FileNotFoundError ''/srv/app/sqlite.db'')
   \<and> snd (wsgi_app (db_server_app ''__main__'') world2 get_db) =
       Inr \<lparr>status = 500, mimetype = ''text/html'', content_disposition = None,
            headers = [(''Access-Control-Allow-Origin'', ''*'')],
            body = ''Internal Server Error''\<rparr>"
proof -
  have absent: "files world2 (abspath world2 ''sqlite.db'') = None"
    by (simp add: world2_def)
  have get: "req_method get_db = ''GET''" "req_path get_db = ''/sqlite.db''"
    by (simp_all add: get_db_def)
  show ?thesis
    using serve_db_missing_file [OF absent get, of "''__main__''"] absent
    by (simp add: abspath_world2 cors_after_request_def internal_server_error_response_def
        error_page_def)
qed



text \<open>
  C7, as amended. Executed as a script in an environment that does not set
  \<open>FLASK_RUN_FROM_CLI\<close> to \<open>true\<close>, db\_server.py prints its line and runs the
  application on host \<open>0.0.0.0\<close>, port 5000. The script registers the one route
  \<open>/sqlite.db\<close>; the URL map of the application it serves holds that rule after the
  rule for static files, \<^verbatim>\<open>/static/<path:filename>\<close>, which the framework installs.
\<close>

theorem db_server_binds_and_routes:
  assumes "getenv w ''FLASK_RUN_FROM_CLI'' \<noteq> Some ''true''"
  shows "\<exists>srv.
     db_server ''__main__'' w =
       ([Print ''Starting DB server on http://0.0.0.0:5000/sqlite.db''], Some srv)
     \<and> host srv = ''0.0.0.0''
     \<and> port srv = 5000
     \<and> url_map (served srv) =
         url_map (Flask ''__main__'') @
           [\<lparr>rule_path = ''/sqlite.db'', rule_var = None,
             rule_methods = [''GET'', ''HEAD'', ''OPTIONS''], endpoint = ''serve_db''\<rparr>]
     \<and> url_map (Flask ''__main__'') = [static_rule]
     \<and> map fst (view_functions (served srv)) = [''static'', ''serve_db'']"
  by (simp add: db_server_main [OF assms] db_server_app_fields Flask_def)

theorem db_server_binds_and_routes_witness:
  "getenv world1 ''FLASK_RUN_FROM_CLI'' \<noteq> Some ''true''
   \<and> snd (db_server ''__main__'' world1) =
       Some \<lparr>served = db_server_app ''__main__'', host = ''0.0.0.0'', port = 5000,
             use_debugger = False, use_reloader = False\<rparr>
   \<and> map rule_path (url_map (db_server_app ''__main__'')) = [''/static/'', ''/sqlite.db'']"
proof -
  have e: "getenv world1 ''FLASK_RUN_FROM_CLI'' \<noteq> Some ''true''"
    and d: "\<not> get_debug_flag world1"
    by (simp_all add: getenv_def get_debug_flag_def world1_def)
  have "map rule_path (url_map (db_server_app ''__main__'')) = [''/static/'', ''/sqlite.db'']"
    by (simp add: db_server_app_fields(1) static_rule_def)
  with db_server_binds_and_routes [OF e] e d show ?thesis
    by (simp add: db_server_main [OF e] debug_off)
qed

text \<open>
  The claim as stated fails: beside the script, a file in the folder \<open>static\<close> is
  served under \<open>/static/\<close>, and with \<open>FLASK_RUN_FROM_CLI\<close> set to \<open>true\<close> no server
  is started.
\<close>

theorem db_server_routes_counterexample:
  "snd (db_server ''__main__'' world4) =
       Some \<lparr>served = db_server_app ''__main__'', host = ''0.0.0.0'', port = 5000,
             use_debugger = False, use_reloader = False\<rparr>
   \<and> map rule_path (url_map (db_server_app ''__main__'')) = [''/static/'', ''/sqlite.db'']
   \<and> db_server_answer ''__main__'' world4 get_static =
       Some ([ViewCall ''static'', Stat ''/srv/app/scripts/static/app.js'',
              Stat ''/srv/app/scripts/static/app.js'', Open ''/srv/app/scripts/static/app.js''],
             \<lparr>status = 200, mimetype = ''text/javascript'',
              content_disposition = Some (Inline ''app.js''),
              headers = [(''Access-Control-Allow-Origin'', ''*'')],
              body = ''alert(1)''\<rparr>)
   \<and> snd (db_server ''__main__'' world5) = None"
proof -
  have env: "getenv world4 ''FLASK_RUN_FROM_CLI'' \<noteq> Some ''true''" "\<not> get_debug_flag world4"
    by (simp_all add: getenv_def get_debug_flag_def world4_def world1_def)
  have a: "snd (db_server ''__main__'' world4) =
       Some \<lparr>served = db_server_app ''__main__'', host = ''0.0.0.0'', port = 5000,
             use_debugger = False, use_reloader = False\<rparr>"
    using env(2) by (simp add: db_server_main [OF env(1)] debug_off)
  have b: "map rule_path (url_map (db_server_app ''__main__'')) = [''/static/'', ''/sqlite.db'']"
    by (simp add: db_server_app_fields(1) static_rule_def)
  have folder: "static_folder ''__main__'' world4 = ''/srv/app/scripts/static''"
    by (simp add: static_folder_def get_root_path_def world4_def world1_def abspath_def
        isabs_def normpath_def initial_slashes_def norm_step_def dirname_def join_def)
  have sent: "send_from_directory world4 ''/srv/app/scripts/static'' ''app.js'' =
          ([Stat ''/srv/app/scripts/static/app.js'', Stat ''/srv/app/scripts/static/app.js'',
            Open ''/srv/app/scripts/static/app.js''],
           Inr \<lparr>status = 200, mimetype = ''text/javascript'',
                content_disposition = Some (Inline ''app.js''),
                headers = [], body = ''alert(1)''\<rparr>)"
    by (simp add: send_from_directory_def safe_join_def normpath_def initial_slashes_def
        norm_step_def isabs_def join_def send_file_def basename_def world4_def)
  have m: "match_request (url_map (db_server_app ''__main__'')) get_static =
             Inr (static_rule, [''app.js''])"
    by (simp add: match_request_def db_server_app_fields(1) find_rule_db upper_GET
        routed_path_def path_part_def get_static_def)
  have u: "upper (req_method get_static) \<noteq> ''OPTIONS''"
    and h: "req_method get_static \<noteq> ''HEAD''"
    by (simp_all add: get_static_def upper_GET)
  have "wsgi_app (db_server_app ''__main__'') world4 get_static =
          ([ViewCall ''static'', Stat ''/srv/app/scripts/static/app.js'',
            Stat ''/srv/app/scripts/static/app.js'', Open ''/srv/app/scripts/static/app.js''],
           Inr \<lparr>status = 200, mimetype = ''text/javascript'',
                content_disposition = Some (Inline ''app.js''),
                headers = [(''Access-Control-Allow-Origin'', ''*'')],
                body = ''alert(1)''\<rparr>)"
    using m u h
    by (simp add: wsgi_app_def full_dispatch_request_def dispatch_request_def
        db_server_app_fields(2) static_rule_def send_static_file_def folder sent
        finalize_db_server_app cors_after_request_def)
  from db_server_answer_default [OF env this]
  have c: "db_server_answer ''__main__'' world4 get_static =
       Some ([ViewCall ''static'', Stat ''/srv/app/scripts/static/app.js'',
              Stat ''/srv/app/scripts/static/app.js'', Open ''/srv/app/scripts/static/app.js''],
             \<lparr>status = 200, mimetype = ''text/javascript'',
              content_disposition = Some (Inline ''app.js''),
              headers = [(''Access-Control-Allow-Origin'', ''*'')],
              body = ''alert(1)''\<rparr>)" .
  have d: "snd (db_server ''__main__'' world5) = None"
    by (simp add: db_server_def app_run_def getenv_def world5_def)
  show ?thesis
    using a b c d by simp
qed

text \<open>
  C10, as amended. The script adds one rule to the URL map the framework starts with.
  A request whose path as the router takes it (percent-decoded, its leading slashes
  taken as one) is not \<open>/sqlite.db\<close> never enters \<open>serve_db\<close>, the only code of the
  repository that reads a file. When that path is not under \<open>/static/\<close> either, the
  request causes no event at all and is answered with the framework's default
  not-found response, status 404, finalized like every response.
\<close>

theorem other_paths_not_found:
  assumes "routed_path req \<noteq> ''/sqlite.db''"
  shows "url_map (db_server_app n) =
           url_map (Flask n) @
             [\<lparr>rule_path = ''/sqlite.db'', rule_var = None,
               rule_methods = [''GET'', ''HEAD'', ''OPTIONS''], endpoint = ''serve_db''\<rparr>]
         \<and> ViewCall ''serve_db'' \<notin> set (fst (wsgi_app (db_server_app n) w req))
         \<and> (take 8 (routed_path req) \<noteq> ''/static/'' \<longrightarrow>
              wsgi_app (db_server_app n) w req =
                ([], Inr (finalize_request (db_server_app n) req not_found_response))
              \<and> status (finalize_request (db_server_app n) req not_found_response) = 404)"
proof -
  have a: "url_map (db_server_app n) =
           url_map (Flask n) @
             [\<lparr>rule_path = ''/sqlite.db'', rule_var = None,
               rule_methods = [''GET'', ''HEAD'', ''OPTIONS''], endpoint = ''serve_db''\<rparr>]"
    by (simp add: db_server_app_fields(1) Flask_def)
  have c: "wsgi_app (db_server_app n) w req =
             ([], Inr (finalize_request (db_server_app n) req not_found_response))"
    if "take 8 (routed_path req) \<noteq> ''/static/''"
  proof -
    have "match_request (url_map (db_server_app n)) req = Inl NotFound"
      using assms that by (rule no_rule_for_other_paths)
    then show ?thesis
      by (simp add: wsgi_app_def full_dispatch_request_def dispatch_request_def
          handle_user_exception_def handle_http_exception_def db_server_app_fields(3))
  qed
  have d: "status (finalize_request (db_server_app n) req not_found_response) = 404"
    by (simp add: finalize_db_server_app cors_after_request_def not_found_response_def
        error_page_def)
  show ?thesis
    using a serve_db_not_called [OF assms, of n w] c d by blast
qed

theorem other_paths_not_found_witness:
  "routed_path get_other \<noteq> ''/sqlite.db''
   \<and> take 8 (routed_path get_other) \<noteq> ''/static/''
   \<and> wsgi_app (db_server_app ''__main__'') world1 get_other =
       ([], Inr \<lparr>status = 404, mimetype = ''text/html'', content_disposition = None,
                 headers = [(''Access-Control-Allow-Origin'', ''*'')], body = ''Not Found''\<rparr>)"
proof -
  have p: "routed_path get_other \<noteq> ''/sqlite.db''"
    and s: "take 8 (routed_path get_other) \<noteq> ''/static/''"
    by (simp_all add: get_other_def routed_path_def path_part_def)
  have "finalize_request (db_server_app ''__main__'') get_other not_found_response =
          \<lparr>status = 404, mimetype = ''text/html'', content_disposition = None,
           headers = [(''Access-Control-Allow-Origin'', ''*'')], body = ''Not Found''\<rparr>"
    by (simp add: finalize_db_server_app cors_after_request_def not_found_response_def
        error_page_def get_other_def)
  with other_paths_not_found [OF p, of "''__main__''" world1] p s show ?thesis
    by simp
qed

text \<open>
  The claim as stated fails: the path \<open>//sqlite.db\<close> is not \<open>/sqlite.db\<close>, and the
  request for it is routed to \<open>serve_db\<close>, which opens the database and answers 200.
\<close>

theorem other_paths_counterexample:
  "req_path get_slash_db \<noteq> ''/sqlite.db''
   \<and> db_server_answer ''__main__'' world1 get_slash_db =
       Some ([ViewCall ''serve_db'', Stat ''/srv/app/sqlite.db'', Open ''/srv/app/sqlite.db''],
             \<lparr>status = 200, mimetype = ''application/x-sqlite3'',
              content_disposition = Some (Attachment ''sqlite.db''),
              headers = [(''Access-Control-Allow-Origin'', ''*'')],
              body = ''SQLite format 3''\<rparr>)"
proof -
  have env: "getenv world1 ''FLASK_RUN_FROM_CLI'' \<noteq> Some ''true''" "\<not> get_debug_flag world1"
    by (simp_all add: getenv_def get_debug_flag_def world1_def)
  have f: "files world1 (abspath world1 ''sqlite.db'') = Some ''SQLite format 3''"
    by (simp add: abspath_world1) (simp add: world1_def)
  have m: "match_request (url_map (db_server_app ''__main__'')) get_slash_db =
     Inr (\<lparr>rule_path = ''/sqlite.db'', rule_var = None,
           rule_methods = [''GET'', ''HEAD'', ''OPTIONS''], endpoint = ''serve_db''\<rparr>, [])"
    by (simp add: match_request_def db_server_app_fields(1) find_rule_db upper_GET
        routed_path_def path_part_def get_slash_db_def)
  have u: "upper (req_method get_slash_db) \<noteq> ''OPTIONS''"
    and h: "req_method get_slash_db \<noteq> ''HEAD''"
    by (simp_all add: get_slash_db_def upper_GET)
  have "wsgi_app (db_server_app ''__main__'') world1 get_slash_db =
          ([ViewCall ''serve_db'', Stat ''/srv/app/sqlite.db'', Open ''/srv/app/sqlite.db''],
           Inr \<lparr>status = 200, mimetype = ''application/x-sqlite3'',
                content_disposition = Some (Attachment ''sqlite.db''),
                headers = [(''Access-Control-Allow-Origin'', ''*'')],
                body = ''SQLite format 3''\<rparr>)"
    using m u h
    by (simp add: wsgi_app_def full_dispatch_request_def dispatch_request_def
        db_server_app_fields(2) serve_db_present [OF f] abspath_world1
        finalize_db_server_app cors_after_request_def)
  from db_server_answer_default [OF env this] show ?thesis
    by (simp add: get_slash_db_def)
qed

section \<open>Both scripts\<close>

text \<open>
  C4. The path each script uses is the name \<open>sqlite.db\<close> joined to the working directory
  and normalised, a function of the working directory alone; the view function looks
  that path up, the launcher passes it last to the child; and in processes with the
  same working directory the two paths are equal.
\<close>

theorem db_path_same_in_both_scripts:
  assumes "cwd w = cwd w'"
  shows "serve_db_db_path w = normpath (join (cwd w) ''sqlite.db'')
         \<and> sqlite_server_db_path w' = normpath (join (cwd w') ''sqlite.db'')
         \<and> serve_db_db_path w = sqlite_server_db_path w'
         \<and> hd (fst (serve_db w)) = Stat (serve_db_db_path w)
         \<and> map last (exec_args (fst (sqlite_server ''__main__'' w' c)))
             = [sqlite_server_db_path w']"
proof -
  have a: "serve_db_db_path w = normpath (join (cwd w) ''sqlite.db'')"
    by (simp add: serve_db_db_path_def abspath_def getcwd_def isabs_def)
  have b: "sqlite_server_db_path w' = normpath (join (cwd w') ''sqlite.db'')"
    by (simp add: sqlite_server_db_path_def abspath_def getcwd_def isabs_def)
  have c: "hd (fst (serve_db w)) = Stat (serve_db_db_path w)"
    by (simp add: serve_db_def send_file_def Let_def split: option.splits)
  have d: "map last (exec_args (fst (sqlite_server ''__main__'' w' c)))
             = [sqlite_server_db_path w']"
    by (cases c) (simp_all add: sqlite_server_events)
  show ?thesis
    using assms a b c d by simp
qed

theorem db_path_same_in_both_scripts_witness:
  "cwd world1 = cwd world2
   \<and> files world1 \<noteq> files world2
   \<and> serve_db_db_path world1 = ''/srv/app/sqlite.db''
   \<and> sqlite_server_db_path world2 = ''/srv/app/sqlite.db''"
proof -
  have c: "cwd world1 = cwd world2"
    by (simp add: world1_def world2_def)
  have "files world1 ''/srv/app/sqlite.db'' \<noteq> files world2 ''/srv/app/sqlite.db''"
    by (simp add: world1_def world2_def)
  then have f: "files world1 \<noteq> files world2"
    by metis
  have "sqlite_server_db_path world2 = ''/srv/app/sqlite.db''"
    by (simp add: sqlite_server_db_path_def abspath_world2)
  with c f db_path_same_in_both_scripts [OF c, of "Exited 0"] show ?thesis
    by simp
qed








end
